theory Spec2Isabelle
  imports Complex_Main
begin

section \<open>JavaScript values as the route handler sees them\<close>

text \<open>
  The handler \<open>POST\<close> of \<open>src/app/api/refine/route.ts\<close> works on untyped values: the
  request body and the upstream reply are whatever \<open>JSON.parse\<close> produced. The model
  keeps them untyped. A number is an IEEE double: every finite double is a real, and the
  handler only compares numbers and takes minima and maxima, which are exact.
  \<open>undefined\<close> is \<open>None\<close> of \<open>json option\<close>. Strings are lists of code units below 256.
\<close>

datatype jsnum = Num real | NaN | PosInf | NegInf

datatype json =
    JNull
  | JBool bool
  | JNum jsnum
  | JStr string
  | JArr "json list"
  | JObj "(string \<times> json) list"

datatype js_error =
    TypeError
  | SyntaxError
  | Error string
  | Rejected

text \<open>\<open>Math.min\<close> and \<open>Math.max\<close> of two numbers: \<open>NaN\<close> is contagious.\<close>

fun Math_min :: "jsnum \<Rightarrow> jsnum \<Rightarrow> jsnum" where
  "Math_min NaN _ = NaN"
| "Math_min _ NaN = NaN"
| "Math_min NegInf _ = NegInf"
| "Math_min _ NegInf = NegInf"
| "Math_min PosInf y = y"
| "Math_min x PosInf = x"
| "Math_min (Num a) (Num b) = Num (min a b)"

fun Math_max :: "jsnum \<Rightarrow> jsnum \<Rightarrow> jsnum" where
  "Math_max NaN _ = NaN"
| "Math_max _ NaN = NaN"
| "Math_max PosInf _ = PosInf"
| "Math_max _ PosInf = PosInf"
| "Math_max NegInf y = y"
| "Math_max x NegInf = x"
| "Math_max (Num a) (Num b) = Num (max a b)"

text \<open>Truthiness, as \<open>!x\<close> and \<open>x || y\<close> test it.\<close>

fun truthy_num :: "jsnum \<Rightarrow> bool" where
  "truthy_num (Num r) = (r \<noteq> 0)"
| "truthy_num NaN = False"
| "truthy_num PosInf = True"
| "truthy_num NegInf = True"

fun truthy :: "json \<Rightarrow> bool" where
  "truthy JNull = False"
| "truthy (JBool b) = b"
| "truthy (JNum n) = truthy_num n"
| "truthy (JStr s) = (s \<noteq> [])"
| "truthy (JArr _) = True"
| "truthy (JObj _) = True"

fun truthy_opt :: "json option \<Rightarrow> bool" where
  "truthy_opt None = False"
| "truthy_opt (Some v) = truthy v"

text \<open>\<open>a || b\<close> where \<open>b\<close> is always a value, and where \<open>b\<close> may be \<open>undefined\<close>.\<close>

fun js_or :: "json option \<Rightarrow> json \<Rightarrow> json" where
  "js_or None b = b"
| "js_or (Some a) b = (if truthy a then a else b)"

definition js_or_opt :: "json option \<Rightarrow> json option \<Rightarrow> json option" where
  "js_or_opt a b = (if truthy_opt a then a else b)"

fun typeof :: "json option \<Rightarrow> string" where
  "typeof None = ''undefined''"
| "typeof (Some JNull) = ''object''"
| "typeof (Some (JBool _)) = ''boolean''"
| "typeof (Some (JNum _)) = ''number''"
| "typeof (Some (JStr _)) = ''string''"
| "typeof (Some (JArr _)) = ''object''"
| "typeof (Some (JObj _)) = ''object''"

text \<open>
  Property access \<open>v.name\<close> for the names the handler reads (\<open>prompt\<close>, \<open>apiKey\<close>,
  \<open>choices\<close>, \<open>message\<close>, \<open>content\<close>, \<open>suggestions\<close>, \<open>id\<close>, \<open>refined\<close>, \<open>clarity\<close>,
  \<open>explanation\<close>): none of them is inherited from a prototype, so only an object can have
  them. Reading a property of \<open>null\<close> or \<open>undefined\<close> throws a \<open>TypeError\<close>. An object is
  the association list of its own properties, each key once (the first pair counts if a
  key is repeated).
\<close>

fun get_prop :: "string \<Rightarrow> json \<Rightarrow> js_error + json option" where
  "get_prop name JNull = Inl TypeError"
| "get_prop name (JObj kvs) = Inr (map_of kvs name)"
| "get_prop name _ = Inr None"

fun prop_opt :: "string \<Rightarrow> json option \<Rightarrow> js_error + json option" where
  "prop_opt name None = Inl TypeError"
| "prop_opt name (Some v) = get_prop name v"

text \<open>Optional chaining \<open>v?.name\<close>: \<open>undefined\<close> when \<open>v\<close> is \<open>null\<close> or \<open>undefined\<close>.\<close>

fun opt_chain :: "string \<Rightarrow> json option \<Rightarrow> json option" where
  "opt_chain name (Some (JObj kvs)) = map_of kvs name"
| "opt_chain name _ = None"

text \<open>Indexing \<open>v[0]\<close>.\<close>

fun index0 :: "json option \<Rightarrow> js_error + json option" where
  "index0 None = Inl TypeError"
| "index0 (Some JNull) = Inl TypeError"
| "index0 (Some (JArr xs)) = Inr (case xs of [] \<Rightarrow> None | x # _ \<Rightarrow> Some x)"
| "index0 (Some (JStr s)) = Inr (case s of [] \<Rightarrow> None | c # _ \<Rightarrow> Some (JStr [c]))"
| "index0 (Some (JObj kvs)) = Inr (map_of kvs ''0'')"
| "index0 (Some _) = Inr None"

text \<open>
  The parts of the JavaScript runtime that the handler calls and that are not modelled
  here are parameters: \<open>JSON.parse\<close> (\<open>None\<close> when it throws a \<open>SyntaxError\<close>), the number
  a string, array or object converts to, and the string a number, array or object
  converts to. Every theorem holds for each choice of them.
\<close>

record js_runtime =
  JSON_parse :: "string \<Rightarrow> json option"
  ToNumber_other :: "json \<Rightarrow> jsnum"
  ToString_other :: "json \<Rightarrow> string"

fun ToNumber :: "js_runtime \<Rightarrow> json \<Rightarrow> jsnum" where
  "ToNumber rt (JNum n) = n"
| "ToNumber rt JNull = Num 0"
| "ToNumber rt (JBool b) = Num (if b then 1 else 0)"
| "ToNumber rt v = ToNumber_other rt v"

fun ToString :: "js_runtime \<Rightarrow> json \<Rightarrow> string" where
  "ToString rt (JStr s) = s"
| "ToString rt JNull = ''null''"
| "ToString rt (JBool b) = (if b then ''true'' else ''false'')"
| "ToString rt v = ToString_other rt v"

text \<open>The decimal digits of a natural number, for \<open>`${index + 1}`\<close> and the status in an error message.\<close>

fun string_of_nat :: "nat \<Rightarrow> string" where
  "string_of_nat n =
     (if n < 10 then [''0123456789'' ! n]
      else string_of_nat (n div 10) @ [''0123456789'' ! (n mod 10)])"

declare string_of_nat.simps [simp del]

text \<open>
  \<open>String.prototype.trim\<close>: white space and line terminators go from both ends. Of the
  code units below 256 these are tab, line feed, vertical tab, form feed, carriage return,
  space and the no-break space.
\<close>

definition is_space :: "char \<Rightarrow> bool" where
  "is_space c = (of_char c \<in> {9, 10, 11, 12, 13, 32, 160 :: nat})"

definition trim :: "string \<Rightarrow> string" where
  "trim s = rev (dropWhile is_space (rev (dropWhile is_space s)))"

text \<open>\<open>String.prototype.startsWith\<close>.\<close>

definition startsWith :: "string \<Rightarrow> string \<Rightarrow> bool" where
  "startsWith s p = (take (length p) s = p)"

section \<open>The Refine endpoint: \<open>POST\<close>\<close>

record RefinedPrompt =
  id_of :: json
  refined :: json
  clarity :: jsnum
  explanation :: json

text \<open>
  \<open>Math.max(1, Math.min(10, suggestion.clarity || 5))\<close>, on the value of the property
  (\<open>None\<close> when the suggestion has no \<open>clarity\<close>).
\<close>

definition clamp_clarity :: "js_runtime \<Rightarrow> json option \<Rightarrow> jsnum" where
  "clamp_clarity rt c =
     Math_max (Num 1) (Math_min (Num 10) (ToNumber rt (js_or c (JNum (Num 5)))))"

text \<open>Exceptions: \<open>bind_err m f\<close> runs \<open>f\<close> on the value of \<open>m\<close> unless \<open>m\<close> threw.\<close>

definition bind_err :: "'e + 'a \<Rightarrow> ('a \<Rightarrow> 'e + 'b) \<Rightarrow> 'e + 'b" where
  "bind_err m f = (case m of Inl e \<Rightarrow> Inl e | Inr x \<Rightarrow> f x)"

text \<open>
  The callback of \<open>.map\<close>: the four properties are read in the order of the object
  literal; reading one of \<open>null\<close> throws.
\<close>

definition sanitize_one :: "js_runtime \<Rightarrow> string \<Rightarrow> nat \<Rightarrow> json \<Rightarrow> js_error + RefinedPrompt" where
  "sanitize_one rt prompt index suggestion =
     bind_err (get_prop ''id'' suggestion) (\<lambda>i.
     bind_err (get_prop ''refined'' suggestion) (\<lambda>r.
     bind_err (get_prop ''clarity'' suggestion) (\<lambda>c.
     bind_err (get_prop ''explanation'' suggestion) (\<lambda>e.
       Inr \<lparr> id_of = js_or i (JStr (string_of_nat (index + 1))),
             refined = js_or r (JStr prompt),
             clarity = clamp_clarity rt c,
             explanation = js_or e (JStr ''General improvement suggestion.'') \<rparr>))))"

text \<open>\<open>xs.map((x, index) => f)\<close> from index \<open>i\<close> on; the first exception ends it.\<close>

fun map_index :: "(nat \<Rightarrow> 'a \<Rightarrow> 'e + 'b) \<Rightarrow> nat \<Rightarrow> 'a list \<Rightarrow> 'e + 'b list" where
  "map_index f i [] = Inr []"
| "map_index f i (x # xs) =
     bind_err (f i x) (\<lambda>y. bind_err (map_index f (Suc i) xs) (\<lambda>ys. Inr (y # ys)))"

text \<open>
  \<open>v.slice(0, 3)\<close> as the receiver of \<open>.map\<close>: an array gives its first three elements.
  A string has \<open>slice\<close> but its result has no \<open>map\<close>; a number, a boolean and an object
  parsed from JSON have no callable \<open>slice\<close>: all of these throw a \<open>TypeError\<close>.
\<close>

fun slice_0_3 :: "json \<Rightarrow> js_error + json list" where
  "slice_0_3 (JArr xs) = Inr (take 3 xs)"
| "slice_0_3 _ = Inl TypeError"

definition sanitize :: "js_runtime \<Rightarrow> string \<Rightarrow> json \<Rightarrow> js_error + RefinedPrompt list" where
  "sanitize rt prompt parsedResponse =
     bind_err (get_prop ''suggestions'' parsedResponse) (\<lambda>s.
     bind_err (slice_0_3 (js_or s (JArr []))) (\<lambda>xs.
       map_index (sanitize_one rt prompt) 0 xs))"

text \<open>The object the \<open>catch\<close> around \<open>JSON.parse\<close> builds.\<close>

definition fallback_refined :: "string \<Rightarrow> string" where
  \<open>fallback_refined prompt =
     ''Be more specific about what you want to know: "'' @ trim prompt
       @ ''" - what particular aspect interests you most?''\<close>

definition fallback :: "string \<Rightarrow> json" where
  "fallback prompt =
     JObj [(''suggestions'', JArr [JObj
       [(''id'', JStr ''1''),
        (''refined'', JStr (fallback_refined prompt)),
        (''clarity'', JNum (Num 6)),
        (''explanation'',
           JStr ''Adding specificity helps get more targeted and useful responses.'')]])]"

definition parse_or_fallback :: "js_runtime \<Rightarrow> string \<Rightarrow> json \<Rightarrow> json" where
  "parse_or_fallback rt prompt content =
     (case JSON_parse rt (ToString rt content) of
        Some v \<Rightarrow> v
      | None \<Rightarrow> fallback prompt)"

text \<open>\<open>data.choices[0]?.message?.content\<close>.\<close>

definition extract_content :: "json \<Rightarrow> js_error + json option" where
  "extract_content data =
     bind_err (get_prop ''choices'' data) (\<lambda>choices.
     bind_err (index0 choices) (\<lambda>first.
       Inr (opt_chain ''content'' (opt_chain ''message'' first))))"

text \<open>The outbound call and what \<open>fetch\<close> resolves to.\<close>

record fetch_request =
  url :: string
  http_method :: string
  authorization :: string
  content_type :: string
  model :: string
  system_content :: string
  user_content :: string
  max_tokens :: nat
  temperature :: real

record fetch_response =
  ok :: bool
  resp_status :: nat
  resp_json :: "js_error + json"

fun join_lines :: "string list \<Rightarrow> string" where
  "join_lines [] = []"
| "join_lines [l] = l"
| "join_lines (l # ls) = l @ CHR 0x0A # join_lines ls"

definition systemPrompt :: string where
  \<open>systemPrompt = join_lines
    [''You are an AI prompt refinement expert. Given a user's prompt, provide 1-3 refined versions that are more clear, specific, and effective.'',
     [],
     ''For each refinement, provide:'',
     ''1. A refined version of the prompt'',
     ''2. A clarity score from 1-10 (10 being most clear and specific)'',
     ''3. A brief, helpful explanation of why this refinement is better'',
     [],
     ''Make explanations engaging and sometimes humorous (inspired by Grok's style). Focus on common prompt improvement techniques like:'',
     ''- Adding context and specificity'',
     ''- Clarifying the desired format or length'',
     ''- Including examples when helpful'',
     ''- Specifying the audience or use case'',
     [],
     ''Return your response as a JSON object with this structure:'',
     ''{'',
     ''  "suggestions": ['',
     ''    {'',
     ''      "id": "1",'',
     ''      "refined": "refined prompt text",'',
     ''      "clarity": 8,'',
     ''      "explanation": "Brief explanation of why this is better"'',
     ''    }'',
     ''  ]'',
     ''}'']\<close>

definition refine_request :: "js_runtime \<Rightarrow> json \<Rightarrow> string \<Rightarrow> fetch_request" where
  \<open>refine_request rt openaiApiKey prompt =
     \<lparr> url = ''https://api.openai.com/v1/chat/completions'',
       http_method = ''POST'',
       authorization = ''Bearer '' @ ToString rt openaiApiKey,
       content_type = ''application/json'',
       model = ''gpt-3.5-turbo'',
       system_content = systemPrompt,
       user_content = ''Original prompt: "'' @ prompt @ ''"'',
       max_tokens = 800,
       temperature = 7 / 10 \<rparr>\<close>

text \<open>Everything after \<open>await fetch(...)\<close>, inside the outer \<open>try\<close>.\<close>

definition after_fetch ::
  "js_runtime \<Rightarrow> string \<Rightarrow> js_error + fetch_response \<Rightarrow> js_error + RefinedPrompt list" where
  "after_fetch rt prompt fetched =
     bind_err fetched (\<lambda>response.
       if \<not> ok response
       then Inl (Error (''OpenAI API error: '' @ string_of_nat (resp_status response)))
       else
         bind_err (resp_json response) (\<lambda>data.
         bind_err (extract_content data) (\<lambda>content.
           case content of
             None \<Rightarrow> Inl (Error ''No content received from OpenAI'')
           | Some c \<Rightarrow>
               if \<not> truthy c then Inl (Error ''No content received from OpenAI'')
               else sanitize rt prompt (parse_or_fallback rt prompt c))))"

text \<open>
  The result of the handler: the HTTP status and body of the \<open>NextResponse\<close>, the calls
  made to \<open>fetch\<close>, and what \<open>console.error\<close> was given.
\<close>

datatype response_body = Suggestions "RefinedPrompt list" | ErrorMessage string

record http_result =
  status :: nat
  body :: response_body
  calls :: "fetch_request list"
  logged :: "js_error list"

definition respond :: "nat \<Rightarrow> response_body \<Rightarrow> fetch_request list \<Rightarrow> http_result" where
  "respond st b cs = \<lparr> status = st, body = b, calls = cs, logged = [] \<rparr>"

text \<open>The outer \<open>catch\<close>.\<close>

definition failed :: "js_error \<Rightarrow> fetch_request list \<Rightarrow> http_result" where
  "failed e cs =
     \<lparr> status = 500, body = ErrorMessage ''Failed to refine prompt'', calls = cs, logged = [e] \<rparr>"

text \<open>\<open>const { prompt, apiKey } = await request.json()\<close>; the argument is what
  \<open>request.json()\<close> settles to.\<close>

definition destructure :: "js_error + json \<Rightarrow> js_error + json option \<times> json option" where
  "destructure request_json =
     bind_err request_json (\<lambda>b.
     bind_err (get_prop ''prompt'' b) (\<lambda>p.
     bind_err (get_prop ''apiKey'' b) (\<lambda>k. Inr (p, k))))"

fun string_value :: "json option \<Rightarrow> string" where
  "string_value (Some (JStr s)) = s"
| "string_value _ = []"

text \<open>
  \<open>POST\<close>, given the runtime, \<open>process.env.OPENAI_API_KEY\<close>, the behaviour of \<open>fetch\<close> and
  the settled \<open>request.json()\<close>.
\<close>

definition POST ::
  "js_runtime \<Rightarrow> string option \<Rightarrow> (fetch_request \<Rightarrow> js_error + fetch_response)
     \<Rightarrow> js_error + json \<Rightarrow> http_result" where
  "POST rt env fetch request_json =
     (case destructure request_json of
        Inl e \<Rightarrow> failed e []
      | Inr (prompt, apiKey) \<Rightarrow>
          if \<not> truthy_opt prompt \<or> typeof prompt \<noteq> ''string''
          then respond 400 (ErrorMessage ''Invalid prompt provided'') []
          else
            (case js_or_opt apiKey (map_option JStr env) of
               None \<Rightarrow> respond 400 (ErrorMessage ''OpenAI API key not provided'') []
             | Some openaiApiKey \<Rightarrow>
                 if \<not> truthy openaiApiKey
                 then respond 400 (ErrorMessage ''OpenAI API key not provided'') []
                 else
                   (let call = refine_request rt openaiApiKey (string_value prompt) in
                    case after_fetch rt (string_value prompt) (fetch call) of
                      Inl e \<Rightarrow> failed e [call]
                    | Inr suggestions \<Rightarrow> respond 200 (Suggestions suggestions) [call])))"

section \<open>The credential form: \<open>ApiKeySetup\<close> and \<open>PromptRefinerApp\<close>\<close>

text \<open>
  The state of \<open>ApiKeySetup\<close> is its three \<open>useState\<close> cells. \<open>handleSubmit\<close> returns the
  new form state and the argument it called \<open>onApiKeySet\<close> with (\<open>None\<close> when it did not
  call it). It has no \<open>throw\<close> and calls nothing that throws.
\<close>

record setup_form =
  apiKey_input :: string
  showKey :: bool
  form_error :: string

definition handleSubmit :: "setup_form \<Rightarrow> setup_form \<times> string option" where
  \<open>handleSubmit f =
     (if trim (apiKey_input f) = []
      then (f\<lparr>form_error := ''Please enter your OpenAI API key''\<rparr>, None)
      else if \<not> startsWith (apiKey_input f) ''sk-''
      then (f\<lparr>form_error := ''OpenAI API keys start with "sk-"''\<rparr>, None)
      else (f\<lparr>form_error := []\<rparr>, Some (trim (apiKey_input f))))\<close>

text \<open>
  \<open>PromptRefinerApp\<close> whose \<open>handleApiKeySet\<close> takes the key alone, the one
  \<open>ApiKeySetup\<close> is typed for: its state cells and the session storage it writes.
\<close>

record app =
  apiKey :: "string option"
  app_isLoading :: bool
  sessionStorage :: "string \<rightharpoonup> string"

definition handleApiKeySet :: "string \<Rightarrow> app \<Rightarrow> app" where
  "handleApiKeySet key st =
     st\<lparr> sessionStorage := (sessionStorage st)(''openai-api-key'' \<mapsto> key),
         apiKey := Some key \<rparr>"

definition handleApiKeyReset :: "app \<Rightarrow> app" where
  "handleApiKeyReset st =
     st\<lparr> sessionStorage := (sessionStorage st)(''openai-api-key'' := None),
         apiKey := None \<rparr>"

text \<open>The effect run on mount.\<close>

definition on_mount :: "app \<Rightarrow> app" where
  "on_mount st =
     (case sessionStorage st ''openai-api-key'' of
        None \<Rightarrow> st\<lparr>app_isLoading := False\<rparr>
      | Some storedApiKey \<Rightarrow>
          if storedApiKey = [] then st\<lparr>app_isLoading := False\<rparr>
          else st\<lparr>apiKey := Some storedApiKey, app_isLoading := False\<rparr>)"

text \<open>
  The two states of the key manager, read off \<open>if (!apiKey)\<close>: the set-up view is
  mounted when the key is \<open>null\<close> or empty, the refiner otherwise.
\<close>

datatype manager = Unconfigured | Ready

definition manager_of :: "string option \<Rightarrow> manager" where
  "manager_of k = (case k of None \<Rightarrow> Unconfigured | Some s \<Rightarrow> if s = [] then Unconfigured else Ready)"

text \<open>A submission of the form inside the application: the callback is \<open>handleApiKeySet\<close>.\<close>

definition submit :: "setup_form \<Rightarrow> app \<Rightarrow> setup_form \<times> app" where
  "submit f st =
     (case handleSubmit f of
        (f', None) \<Rightarrow> (f', st)
      | (f', Some key) \<Rightarrow> (f', handleApiKeySet key st))"

text \<open>
  The other \<open>PromptRefinerApp\<close> in the file, whose \<open>handleApiKeySet\<close> takes a model
  identifier as well.
\<close>

record app_model =
  apiKey_m :: "string option"
  selectedModel :: string
  isLoading_m :: bool
  sessionStorage_m :: "string \<rightharpoonup> string"

definition handleApiKeySet_model :: "string \<Rightarrow> string \<Rightarrow> app_model \<Rightarrow> app_model" where
  "handleApiKeySet_model key mdl st =
     st\<lparr> sessionStorage_m :=
           (sessionStorage_m st)(''openai-api-key'' \<mapsto> key, ''openai-model'' \<mapsto> mdl),
         apiKey_m := Some key,
         selectedModel := mdl \<rparr>"

section \<open>The client pipeline: \<open>refinePrompt\<close> in \<open>PromptRefiner\<close>\<close>

record refiner =
  input :: string
  suggestions :: "RefinedPrompt list"
  isLoading :: bool
  error :: "string option"

record refine_call =
  call_prompt :: string
  call_apiKey :: string

text \<open>
  How \<open>axios.post\<close> settles: fulfilled with \<open>response.data.suggestions\<close>, rejected with an
  axios error (its \<open>response?.data?.error\<close> and its \<open>message\<close>), or rejected with
  something else.
\<close>

datatype outcome =
    Fulfilled "RefinedPrompt list"
  | AxiosError "string option" string
  | OtherError

text \<open>\<open>refinePrompt\<close> up to its \<open>await\<close>: the new state and the call it posted, if any.\<close>

definition refinePrompt_begin :: "string \<Rightarrow> string \<Rightarrow> refiner \<Rightarrow> refiner \<times> refine_call option" where
  "refinePrompt_begin key prompt st =
     (if trim prompt = [] then (st\<lparr>suggestions := []\<rparr>, None)
      else (st\<lparr>isLoading := True, error := None\<rparr>,
            Some \<lparr>call_prompt = prompt, call_apiKey = key\<rparr>))"

text \<open>\<open>refinePrompt\<close> from its \<open>await\<close> on, once the call has settled.\<close>

definition refinePrompt_settle :: "outcome \<Rightarrow> refiner \<Rightarrow> refiner" where
  "refinePrompt_settle out st =
     (case out of
        Fulfilled s \<Rightarrow> st\<lparr>suggestions := s, isLoading := False\<rparr>
      | AxiosError e m \<Rightarrow>
          st\<lparr> error := Some (case e of
                               Some msg \<Rightarrow> if msg \<noteq> [] then msg
                                           else if m \<noteq> [] then m else ''Failed to refine prompt''
                             | None \<Rightarrow> if m \<noteq> [] then m else ''Failed to refine prompt''),
              suggestions := [], isLoading := False \<rparr>
      | OtherError \<Rightarrow>
          st\<lparr> error := Some ''An unexpected error occurred'',
              suggestions := [], isLoading := False \<rparr>)"

text \<open>
  The component over time. The event loop runs one handler at a time, so a run is a
  sequence of events: the debounced function fires with a prompt, or the call numbered
  \<open>n\<close> (in order of dispatch, from 0) settles. Calls that are still awaited are kept with
  their number; settling a call that is not awaited does not happen.
\<close>

record pipeline =
  ui :: refiner
  in_flight :: "(nat \<times> refine_call) list"
  dispatched :: nat

datatype event = Dispatch string | Settle nat outcome

definition step :: "string \<Rightarrow> pipeline \<Rightarrow> event \<Rightarrow> pipeline" where
  "step key p ev =
     (case ev of
        Dispatch prompt \<Rightarrow>
          (case refinePrompt_begin key prompt (ui p) of
             (st', None) \<Rightarrow> p\<lparr>ui := st'\<rparr>
           | (st', Some c) \<Rightarrow>
               p\<lparr> ui := st', in_flight := in_flight p @ [(dispatched p, c)],
                   dispatched := Suc (dispatched p) \<rparr>)
      | Settle n out \<Rightarrow>
          if n \<in> fst ` set (in_flight p)
          then p\<lparr> ui := refinePrompt_settle out (ui p),
                  in_flight := filter (\<lambda>c. fst c \<noteq> n) (in_flight p) \<rparr>
          else p)"

definition run :: "string \<Rightarrow> pipeline \<Rightarrow> event list \<Rightarrow> pipeline" where
  "run key p evs = foldl (step key) p evs"

definition mounted :: pipeline where
  "mounted = \<lparr> ui = \<lparr>input = [], suggestions = [], isLoading = False, error = None\<rparr>,
               in_flight = [], dispatched = 0 \<rparr>"

section \<open>Concrete values used to run the definitions\<close>

text \<open>
  A runtime whose \<open>JSON.parse\<close> knows a few texts and throws on every other one, and which
  converts the string \<open>high\<close> to \<open>NaN\<close>, as \<open>Number("high")\<close> does.
\<close>

definition parse_table :: "(string \<times> json) list" where
  \<open>parse_table =
     [(''null'', JNull),
      (''{}'', JObj []),
      (''{"suggestions":"none"}'', JObj [(''suggestions'', JStr ''none'')]),
      (''{"suggestions":[{"clarity":7.5}]}'',
         JObj [(''suggestions'', JArr [JObj [(''clarity'', JNum (Num (15 / 2)))]])]),
      (''{"suggestions":[{"clarity":"high"}]}'',
         JObj [(''suggestions'', JArr [JObj [(''clarity'', JStr ''high'')]])]),
      (''{"suggestions":[{"clarity":15},{"clarity":-5},{"clarity":0}]}'',
         JObj [(''suggestions'', JArr [JObj [(''clarity'', JNum (Num 15))],
                                       JObj [(''clarity'', JNum (Num (- 5)))],
                                       JObj [(''clarity'', JNum (Num 0))]])]),
      (''{"suggestions":[{"clarity":7},{}]}'',
         JObj [(''suggestions'', JArr [JObj [(''clarity'', JNum (Num 7))], JObj []])]),
      (''{"suggestions":[{"id":"a"},null,{"id":"c"}]}'',
         JObj [(''suggestions'', JArr [JObj [(''id'', JStr ''a'')], JNull,
                                       JObj [(''id'', JStr ''c'')]])]),
      (''{"suggestions":[{"id":"a"},{"id":"b"},{"id":"c"},{"id":"d"}]}'',
         JObj [(''suggestions'', JArr [JObj [(''id'', JStr ''a'')], JObj [(''id'', JStr ''b'')],
                                       JObj [(''id'', JStr ''c'')], JObj [(''id'', JStr ''d'')]])])]\<close>

definition table_runtime :: js_runtime where
  "table_runtime =
     \<lparr> JSON_parse = map_of parse_table,
       ToNumber_other = (\<lambda>v. if v = JStr ''high'' then NaN else Num 0),
       ToString_other = (\<lambda>_. []) \<rparr>"

text \<open>An upstream that answers every call with a 200 whose first choice has the given content.\<close>

definition reply_with :: "string \<Rightarrow> fetch_request \<Rightarrow> js_error + fetch_response" where
  "reply_with content call =
     Inr \<lparr> ok = True, resp_status = 200,
           resp_json = Inr (JObj [(''choices'',
             JArr [JObj [(''message'', JObj [(''content'', JStr content)])]])]) \<rparr>"

definition request_of :: "(string \<times> json) list \<Rightarrow> js_error + json" where
  "request_of kvs = Inr (JObj kvs)"

text \<open>A session with nothing stored, and the form with a given text typed in.\<close>

definition empty_session :: app where
  "empty_session = \<lparr> apiKey = None, app_isLoading = False, sessionStorage = Map.empty \<rparr>"

definition typed :: "string \<Rightarrow> setup_form" where
  "typed s = \<lparr> apiKey_input = s, showKey = False, form_error = [] \<rparr>"

text \<open>The suggestions a mocked endpoint returns for a prompt.\<close>

definition shown_for :: "string \<Rightarrow> RefinedPrompt list" where
  "shown_for prompt =
     [\<lparr> id_of = JStr ''1'', refined = JStr (''Refined: '' @ prompt), clarity = Num 8,
         explanation = JStr ''Test explanation'' \<rparr>]"

section \<open>Lemmas about the definitions\<close>

lemma bind_err_Inr [simp]: "bind_err (Inr x) f = f x"
  by (simp add: bind_err_def)

lemma bind_err_Inl [simp]: "bind_err (Inl e) f = Inl e"
  by (simp add: bind_err_def)

lemma get_prop_Inr_not_null: "get_prop name b = Inr v \<Longrightarrow> b \<noteq> JNull"
  by (cases b) auto

lemma get_prop_total: "b \<noteq> JNull \<Longrightarrow> \<exists>v. get_prop name b = Inr v"
  by (cases b) auto

lemma destructure_fields:
  assumes "get_prop ''prompt'' b = Inr p" and "get_prop ''apiKey'' b = Inr k"
  shows "destructure (Inr b) = Inr (p, k)"
  using assms by (simp add: destructure_def)

lemma destructure_Inr:
  assumes "destructure req = Inr (prompt, k)"
  shows "\<exists>b. req = Inr b \<and> get_prop ''prompt'' b = Inr prompt \<and> get_prop ''apiKey'' b = Inr k"
  using assms by (auto simp add: destructure_def bind_err_def split: sum.splits)

lemma valid_prompt:
  assumes "\<not> (\<not> truthy_opt prompt \<or> typeof prompt \<noteq> ''string'')"
  shows "\<exists>p. prompt = Some (JStr p) \<and> p \<noteq> []"
proof (cases prompt)
  case None
  with assms show ?thesis by simp
next
  case (Some v)
  with assms show ?thesis by (cases v) simp_all
qed

lemma POST_accepted:
  assumes "get_prop ''prompt'' b = Inr (Some (JStr p))" and "p \<noteq> []"
    and "get_prop ''apiKey'' b = Inr k"
    and "js_or_opt k (map_option JStr env) = Some key" and "truthy key"
  shows "POST rt env fetch (Inr b) =
           (case after_fetch rt p (fetch (refine_request rt key p)) of
              Inl e \<Rightarrow> failed e [refine_request rt key p]
            | Inr ss \<Rightarrow> respond 200 (Suggestions ss) [refine_request rt key p])"
  using assms by (simp add: POST_def destructure_fields Let_def)

lemma after_fetch_content:
  assumes "fetched = Inr resp" and "ok resp" and "resp_json resp = Inr data"
    and "extract_content data = Inr (Some c)" and "truthy c"
  shows "after_fetch rt p fetched = sanitize rt p (parse_or_fallback rt p c)"
  using assms by (simp add: after_fetch_def)

lemma after_fetch_success:
  assumes "after_fetch rt p fetched = Inr ss"
  shows "\<exists>resp data c. fetched = Inr resp \<and> ok resp \<and> resp_json resp = Inr data
           \<and> extract_content data = Inr (Some c) \<and> truthy c
           \<and> sanitize rt p (parse_or_fallback rt p c) = Inr ss"
  using assms
  by (auto simp add: after_fetch_def bind_err_def split: sum.splits if_splits option.splits)

lemma POST_content:
  assumes "get_prop ''prompt'' b = Inr (Some (JStr p))" and "p \<noteq> []"
    and "get_prop ''apiKey'' b = Inr k"
    and "js_or_opt k (map_option JStr env) = Some key" and "truthy key"
    and "fetch (refine_request rt key p) = Inr resp" and "ok resp"
    and "resp_json resp = Inr data"
    and "extract_content data = Inr (Some c)" and "truthy c"
  shows "POST rt env fetch (Inr b) =
           (case sanitize rt p (parse_or_fallback rt p c) of
              Inl e \<Rightarrow> failed e [refine_request rt key p]
            | Inr ss \<Rightarrow> respond 200 (Suggestions ss) [refine_request rt key p])"
  using POST_accepted [OF assms(1-5), of rt fetch]
    after_fetch_content [OF assms(6-10), of rt p]
  by simp

lemma POST_empty_content:
  assumes "get_prop ''prompt'' b = Inr (Some (JStr p))" and "p \<noteq> []"
    and "get_prop ''apiKey'' b = Inr k"
    and "js_or_opt k (map_option JStr env) = Some key" and "truthy key"
    and "fetch (refine_request rt key p) = Inr resp" and "ok resp"
    and "resp_json resp = Inr data"
    and "extract_content data = Inr (Some c)" and "\<not> truthy c"
  shows "POST rt env fetch (Inr b) =
           failed (Error ''No content received from OpenAI'') [refine_request rt key p]"
  using POST_accepted [OF assms(1-5), of rt fetch] assms(6-10)
  by (simp add: after_fetch_def)

lemma sanitize_fallback:
  "sanitize rt p (fallback p) =
     Inr [\<lparr> id_of = JStr ''1'', refined = JStr (fallback_refined p), clarity = Num 6,
            explanation = JStr ''Adding specificity helps get more targeted and useful responses.'' \<rparr>]"
  by (simp add: sanitize_def fallback_def sanitize_one_def clamp_clarity_def fallback_refined_def)

lemma map_index_length:
  "map_index f i xs = Inr ys \<Longrightarrow> length ys = length xs"
proof (induction xs arbitrary: i ys)
  case Nil
  then show ?case by simp
next
  case (Cons x xs)
  then show ?case
    by (auto simp add: bind_err_def split: sum.splits)
qed

lemma map_index_nth:
  "map_index f i xs = Inr ys \<Longrightarrow> j < length xs \<Longrightarrow> f (i + j) (xs ! j) = Inr (ys ! j)"
proof (induction xs arbitrary: i ys j)
  case Nil
  then show ?case by simp
next
  case (Cons x xs)
  from Cons.prems(1) obtain y zs where y: "f i x = Inr y"
    and zs: "map_index f (Suc i) xs = Inr zs" and ys: "ys = y # zs"
    by (auto simp add: bind_err_def split: sum.splits)
  show ?case
  proof (cases j)
    case 0
    then show ?thesis using y ys by simp
  next
    case (Suc j')
    then have "j' < length xs" using Cons.prems(2) by simp
    from Cons.IH [OF zs this] show ?thesis using Suc ys by simp
  qed
qed





lemma sanitize_one_clarity:
  assumes "sanitize_one rt p j x = Inr s"
  shows "\<exists>c. get_prop ''clarity'' x = Inr c \<and> clarity s = clamp_clarity rt c"
  using assms by (cases x) (auto simp add: sanitize_one_def)


lemma slice_0_3_Inr: "slice_0_3 v = Inr ys \<Longrightarrow> \<exists>xs. v = JArr xs \<and> ys = take 3 xs"
  by (cases v) simp_all

lemma sanitize_success:
  assumes "sanitize rt p parsed = Inr ss"
  shows "\<exists>s xs. get_prop ''suggestions'' parsed = Inr s \<and> js_or s (JArr []) = JArr xs
           \<and> map_index (sanitize_one rt p) 0 (take 3 xs) = Inr ss"
proof -
  from assms obtain s ys where s: "get_prop ''suggestions'' parsed = Inr s"
    and ys: "slice_0_3 (js_or s (JArr [])) = Inr ys"
    and m: "map_index (sanitize_one rt p) 0 ys = Inr ss"
    by (auto simp add: sanitize_def bind_err_def split: sum.splits)
  from slice_0_3_Inr [OF ys] obtain xs where "js_or s (JArr []) = JArr xs" "ys = take 3 xs"
    by blast
  with s m show ?thesis by blast
qed

lemma sanitize_no_suggestions:
  assumes "get_prop ''suggestions'' parsed = Inr s" and "\<not> truthy_opt s"
  shows "sanitize rt p parsed = Inr []"
proof -
  have "js_or s (JArr []) = JArr []"
    using assms(2) by (cases s) simp_all
  then show ?thesis
    using assms(1) by (simp add: sanitize_def)
qed

lemma sanitize_throws:
  assumes "parsed = JNull
     \<or> (\<exists>v. get_prop ''suggestions'' parsed = Inr (Some v) \<and> truthy v \<and> (\<forall>xs. v \<noteq> JArr xs))"
  shows "sanitize rt p parsed = Inl TypeError"
  using assms
proof
  assume "parsed = JNull"
  then show ?thesis by (simp add: sanitize_def)
next
  assume "\<exists>v. get_prop ''suggestions'' parsed = Inr (Some v) \<and> truthy v \<and> (\<forall>xs. v \<noteq> JArr xs)"
  then obtain v where g: "get_prop ''suggestions'' parsed = Inr (Some v)"
    and t: "truthy v" and n: "\<forall>xs. v \<noteq> JArr xs" by blast
  from n have "slice_0_3 v = Inl TypeError" by (cases v) simp_all
  with g t show ?thesis by (simp add: sanitize_def)
qed

lemma POST_success_path:
  assumes "body (POST rt env fetch req) = Suggestions ss"
  shows "\<exists>b p k key resp data c. req = Inr b
           \<and> get_prop ''prompt'' b = Inr (Some (JStr p)) \<and> p \<noteq> []
           \<and> get_prop ''apiKey'' b = Inr k
           \<and> js_or_opt k (map_option JStr env) = Some key \<and> truthy key
           \<and> fetch (refine_request rt key p) = Inr resp \<and> ok resp
           \<and> resp_json resp = Inr data
           \<and> extract_content data = Inr (Some c) \<and> truthy c
           \<and> sanitize rt p (parse_or_fallback rt p c) = Inr ss"
proof -
  from assms obtain prompt k where d: "destructure req = Inr (prompt, k)"
    by (auto simp add: POST_def failed_def split: sum.splits)
  from destructure_Inr [OF d] obtain b where b: "req = Inr b"
    and gp: "get_prop ''prompt'' b = Inr prompt" and gk: "get_prop ''apiKey'' b = Inr k"
    by blast
  have v: "\<not> (\<not> truthy_opt prompt \<or> typeof prompt \<noteq> ''string'')"
    using assms d by (auto simp add: POST_def respond_def split: if_splits)
  from valid_prompt [OF v] obtain p where p: "prompt = Some (JStr p)" and pn: "p \<noteq> []"
    by blast
  from assms d v obtain key where key: "js_or_opt k (map_option JStr env) = Some key"
    by (cases "js_or_opt k (map_option JStr env)") (auto simp add: POST_def respond_def)
  have tk: "truthy key"
    using assms d v key by (auto simp add: POST_def respond_def split: if_splits)
  have "after_fetch rt p (fetch (refine_request rt key p)) = Inr ss"
    using assms d v key tk p
    by (auto simp add: POST_def respond_def failed_def Let_def split: sum.splits)
  from after_fetch_success [OF this] obtain resp data c
    where "fetch (refine_request rt key p) = Inr resp" "ok resp" "resp_json resp = Inr data"
      "extract_content data = Inr (Some c)" "truthy c"
      "sanitize rt p (parse_or_fallback rt p c) = Inr ss"
    by blast
  with b gp gk p pn key tk show ?thesis by blast
qed



lemma Math_max_min_NaN:
  "Math_max (Num 1) (Math_min (Num 10) t) = NaN \<longleftrightarrow> t = NaN"
  by (cases t) simp_all

lemma Math_max_min_range:
  "t \<noteq> NaN \<Longrightarrow> \<exists>r. Math_max (Num 1) (Math_min (Num 10) t) = Num r \<and> 1 \<le> r \<and> r \<le> 10"
  by (cases t) simp_all

lemma clamp_clarity_NaN:
  assumes "clamp_clarity rt c = NaN"
  shows "\<exists>v. c = Some v \<and> ToNumber_other rt v = NaN \<and> typeof c \<in> {''string'', ''object''}"
proof -
  from assms have t: "ToNumber rt (js_or c (JNum (Num 5))) = NaN"
    by (simp add: clamp_clarity_def Math_max_min_NaN)
  then obtain v where c: "c = Some v" by (cases c) auto
  from t c have tv: "truthy v" and n: "ToNumber rt v = NaN"
    by (auto split: if_splits)
  show ?thesis
  proof (cases v)
    case (JNum x)
    with tv n show ?thesis by (cases x) auto
  qed (use tv n c in \<open>auto split: if_splits\<close>)
qed

lemma clamp_clarity_range:
  "clamp_clarity rt c \<noteq> NaN \<Longrightarrow> \<exists>r. clamp_clarity rt c = Num r \<and> 1 \<le> r \<and> r \<le> 10"
  unfolding clamp_clarity_def
  by (rule Math_max_min_range) (simp add: Math_max_min_NaN)

lemma clamp_clarity_idem:
  "1 \<le> r \<Longrightarrow> r \<le> 10 \<Longrightarrow> clamp_clarity rt (Some (JNum (Num r))) = Num r"
  by (simp add: clamp_clarity_def)

lemma clamp_clarity_int:
  assumes "c = None \<or> (\<exists>k::int. c = Some (JNum (Num (of_int k))))"
  shows "\<exists>j::int. clamp_clarity rt c = Num (of_int j)"
  using assms
proof
  assume "c = None"
  then have "clamp_clarity rt c = Num (of_int 5)" by (simp add: clamp_clarity_def)
  then show ?thesis ..
next
  assume "\<exists>k::int. c = Some (JNum (Num (of_int k)))"
  then obtain k :: int where c: "c = Some (JNum (Num (of_int k)))" ..
  have "clamp_clarity rt c = Num (of_int (if k = 0 then 5 else max 1 (min 10 k)))"
    using c by (simp add: clamp_clarity_def min_def max_def)
  then show ?thesis ..
qed

lemma startsWith_sk_trim:
  assumes "startsWith s ''sk-''"
  shows "trim s \<noteq> []"
proof -
  from assms obtain t where s: "s = CHR ''s'' # t"
    by (cases s) (auto simp add: startsWith_def)
  have ns: "\<not> is_space CHR ''s''" by (simp add: is_space_def)
  then have "dropWhile is_space s = s" using s by simp
  moreover have "dropWhile is_space (rev s) \<noteq> []"
    using ns s by (auto simp add: dropWhile_eq_Nil_conv)
  ultimately show ?thesis by (simp add: trim_def)
qed

lemma test_request:
  "get_prop ''prompt'' (JObj [(''prompt'', JStr ''Test prompt'')])
     = Inr (Some (JStr ''Test prompt''))"
  "''Test prompt'' \<noteq> []"
  "get_prop ''apiKey'' (JObj [(''prompt'', JStr ''Test prompt'')]) = Inr None"
  "js_or_opt None (map_option JStr (Some ''sk-default'')) = Some (JStr ''sk-default'')"
  "truthy (JStr ''sk-default'')"
  by (simp_all add: js_or_opt_def)

lemma test_reply:
  "reply_with c (refine_request table_runtime (JStr ''sk-default'') ''Test prompt'')
     = Inr \<lparr>ok = True, resp_status = 200,
            resp_json = Inr (JObj [(''choices'',
              JArr [JObj [(''message'', JObj [(''content'', JStr c)])]])])\<rparr>"
  "ok \<lparr>ok = True, resp_status = 200,
            resp_json = Inr (JObj [(''choices'',
              JArr [JObj [(''message'', JObj [(''content'', JStr c)])]])])\<rparr>"
  "resp_json \<lparr>ok = True, resp_status = 200,
            resp_json = Inr (JObj [(''choices'',
              JArr [JObj [(''message'', JObj [(''content'', JStr c)])]])])\<rparr>
     = Inr (JObj [(''choices'',
              JArr [JObj [(''message'', JObj [(''content'', JStr c)])]])])"
  "extract_content (JObj [(''choices'',
              JArr [JObj [(''message'', JObj [(''content'', JStr c)])]])])
     = Inr (Some (JStr c))"
  by (simp_all add: reply_with_def extract_content_def)

lemmas run_test =
  POST_def destructure_def js_or_opt_def after_fetch_def reply_with_def
  extract_content_def parse_or_fallback_def sanitize_def sanitize_one_def
  clamp_clarity_def table_runtime_def parse_table_def respond_def failed_def

section \<open>The claims\<close>

text \<open>
  C1: a request with a valid prompt, no \<open>apiKey\<close> and no \<open>OPENAI_API_KEY\<close> in the
  environment makes no upstream call, and is answered with status 400 and the message
  \<open>OpenAI API key not provided\<close>. The route's test \<open>should handle missing OpenAI API key\<close>
  sends this request and expects status 500 and \<open>OpenAI API key not configured\<close>.
\<close>

theorem POST_no_credential_is_400:
  "POST rt None fetch (request_of [(''prompt'', JStr ''Test prompt'')])
     = \<lparr> status = 400, body = ErrorMessage ''OpenAI API key not provided'',
         calls = [], logged = [] \<rparr>"
  by (simp add: POST_def request_of_def destructure_def js_or_opt_def respond_def)

theorem POST_no_credential_is_400_witness:
  "POST table_runtime None (reply_with ''{}'') (request_of [(''prompt'', JStr ''Test prompt'')])
     = \<lparr> status = 400, body = ErrorMessage ''OpenAI API key not provided'',
         calls = [], logged = [] \<rparr>"
  by (rule POST_no_credential_is_400)

text \<open>
  C2 as stated fails on the run of the stale-response scenario: call 0 for \<open>x\<close>, call 1 for \<open>y\<close>, call 1
  settles, call 0 settles. The screen then shows the suggestions for \<open>x\<close>.
\<close>

theorem stale_response_counterexample:
  "suggestions (ui (run ''sk-123'' mounted
      [Dispatch ''x'', Dispatch ''y'',
       Settle 1 (Fulfilled (shown_for ''y'')), Settle 0 (Fulfilled (shown_for ''x''))]))
     = shown_for ''x''
   \<and> shown_for ''x'' \<noteq> shown_for ''y''"
  by (simp add: run_def step_def mounted_def refinePrompt_begin_def refinePrompt_settle_def
      trim_def is_space_def shown_for_def)

text \<open>
  C2, as the component behaves: every awaited call that settles puts its suggestions on
  the screen. When two calls are dispatched and the first settles after the second, the
  suggestions shown are those of the first, the call that settled last.
\<close>

theorem last_settled_wins:
  assumes "trim x \<noteq> []" and "trim y \<noteq> []"
  shows "suggestions (ui (run key mounted
           [Dispatch x, Dispatch y, Settle 1 (Fulfilled b), Settle 0 (Fulfilled a)])) = a
     \<and> (\<forall>p n s. n \<in> fst ` set (in_flight p)
           \<longrightarrow> suggestions (ui (step key p (Settle n (Fulfilled s)))) = s)"
  using assms
  by (simp add: run_def step_def mounted_def refinePrompt_begin_def refinePrompt_settle_def)

theorem last_settled_wins_witness:
  "suggestions (ui (run ''sk-123'' mounted
      [Dispatch ''Tell me'', Dispatch ''Tell me about dogs'',
       Settle 1 (Fulfilled (shown_for ''Tell me about dogs'')),
       Settle 0 (Fulfilled (shown_for ''Tell me''))]))
     = shown_for ''Tell me''"
proof -
  have "trim ''Tell me'' \<noteq> []" and "trim ''Tell me about dogs'' \<noteq> []"
    by (simp_all add: trim_def is_space_def)
  from last_settled_wins [OF this] show ?thesis by blast
qed

text \<open>
  C3 as stated fails: the upstream clarity 7.5 is returned as 7.5, which is not an integer, and the upstream
  clarity \<open>"high"\<close> is returned as \<open>NaN\<close>.
\<close>

theorem POST_clarity_counterexample:
  \<open>body (POST table_runtime (Some ''sk-default'')
       (reply_with ''{"suggestions":[{"clarity":7.5}]}'')
       (Inr (JObj [(''prompt'', JStr ''Test prompt'')])))
     = Suggestions [\<lparr> id_of = JStr ''1'', refined = JStr ''Test prompt'',
                       clarity = Num (15 / 2),
                       explanation = JStr ''General improvement suggestion.'' \<rparr>]
   \<and> (15 / 2 :: real) \<notin> \<int>
   \<and> body (POST table_runtime (Some ''sk-default'')
       (reply_with ''{"suggestions":[{"clarity":"high"}]}'')
       (Inr (JObj [(''prompt'', JStr ''Test prompt'')])))
     = Suggestions [\<lparr> id_of = JStr ''1'', refined = JStr ''Test prompt'',
                       clarity = NaN,
                       explanation = JStr ''General improvement suggestion.'' \<rparr>]\<close>
  by (simp add: POST_def destructure_def js_or_opt_def after_fetch_def reply_with_def
      extract_content_def parse_or_fallback_def sanitize_def sanitize_one_def
      clamp_clarity_def table_runtime_def parse_table_def respond_def string_of_nat.simps)

text \<open>
  C3, as the handler behaves. A successful response comes from a request with a prompt
  \<open>p\<close> and an upstream reply with a content \<open>c\<close>; the entries \<open>xs\<close> are the \<open>suggestions\<close>
  of what \<open>c\<close> parses to (of the fallback object when it does not parse). The \<open>i\<close>-th
  returned suggestion has the clamped clarity of the \<open>i\<close>-th entry: \<open>NaN\<close> only if that
  clarity is a string, array or object converting to \<open>NaN\<close> (\<open>NextResponse.json\<close> then
  writes \<open>null\<close>); otherwise a number from 1 to 10, on which the normalisation is
  idempotent; an integer when the entry's clarity is absent or an integer.
\<close>

theorem POST_clarity_range:
  assumes "body (POST rt env fetch req) = Suggestions ss"
  shows "\<exists>b p k key resp data c s xs.
       req = Inr b \<and> get_prop ''prompt'' b = Inr (Some (JStr p))
     \<and> get_prop ''apiKey'' b = Inr k \<and> js_or_opt k (map_option JStr env) = Some key
     \<and> fetch (refine_request rt key p) = Inr resp \<and> resp_json resp = Inr data
     \<and> extract_content data = Inr (Some c)
     \<and> get_prop ''suggestions'' (parse_or_fallback rt p c) = Inr s
     \<and> js_or s (JArr []) = JArr xs
     \<and> length ss = min (length xs) 3
     \<and> (\<forall>i < length ss. \<exists>cv.
            get_prop ''clarity'' (xs ! i) = Inr cv
          \<and> clarity (ss ! i) = clamp_clarity rt cv
          \<and> (clarity (ss ! i) = NaN
               \<longrightarrow> (\<exists>v. cv = Some v \<and> ToNumber_other rt v = NaN
                        \<and> typeof cv \<in> {''string'', ''object''}))
          \<and> (clarity (ss ! i) \<noteq> NaN
               \<longrightarrow> (\<exists>r. clarity (ss ! i) = Num r \<and> 1 \<le> r \<and> r \<le> 10
                        \<and> clamp_clarity rt (Some (JNum (Num r))) = Num r))
          \<and> (cv = None \<or> (\<exists>n::int. cv = Some (JNum (Num (of_int n))))
               \<longrightarrow> (\<exists>j::int. clarity (ss ! i) = Num (of_int j))))"
proof -
  from POST_success_path [OF assms] obtain b p k key resp data c
    where path: "req = Inr b" "get_prop ''prompt'' b = Inr (Some (JStr p))"
      "get_prop ''apiKey'' b = Inr k" "js_or_opt k (map_option JStr env) = Some key"
      "fetch (refine_request rt key p) = Inr resp" "resp_json resp = Inr data"
      "extract_content data = Inr (Some c)"
    and san: "sanitize rt p (parse_or_fallback rt p c) = Inr ss"
    by blast
  from sanitize_success [OF san] obtain s xs
    where s: "get_prop ''suggestions'' (parse_or_fallback rt p c) = Inr s"
      and xs: "js_or s (JArr []) = JArr xs"
      and m: "map_index (sanitize_one rt p) 0 (take 3 xs) = Inr ss"
    by blast
  have len: "length ss = min (length xs) 3"
    using map_index_length [OF m] by simp
  have each: "\<exists>cv. get_prop ''clarity'' (xs ! i) = Inr cv
          \<and> clarity (ss ! i) = clamp_clarity rt cv
          \<and> (clarity (ss ! i) = NaN
               \<longrightarrow> (\<exists>v. cv = Some v \<and> ToNumber_other rt v = NaN
                        \<and> typeof cv \<in> {''string'', ''object''}))
          \<and> (clarity (ss ! i) \<noteq> NaN
               \<longrightarrow> (\<exists>r. clarity (ss ! i) = Num r \<and> 1 \<le> r \<and> r \<le> 10
                        \<and> clamp_clarity rt (Some (JNum (Num r))) = Num r))
          \<and> (cv = None \<or> (\<exists>n::int. cv = Some (JNum (Num (of_int n))))
               \<longrightarrow> (\<exists>j::int. clarity (ss ! i) = Num (of_int j)))"
    if i: "i < length ss" for i
  proof -
    from i len have "i < length (take 3 xs)" by simp
    from map_index_nth [OF m this] i len
    have "sanitize_one rt p i (xs ! i) = Inr (ss ! i)" by simp
    from sanitize_one_clarity [OF this] obtain cv
      where g: "get_prop ''clarity'' (xs ! i) = Inr cv"
        and cl: "clarity (ss ! i) = clamp_clarity rt cv"
      by blast
    have 1: "clarity (ss ! i) = NaN \<longrightarrow> (\<exists>v. cv = Some v \<and> ToNumber_other rt v = NaN
                   \<and> typeof cv \<in> {''string'', ''object''})"
      using cl clamp_clarity_NaN by simp
    have 2: "clarity (ss ! i) \<noteq> NaN \<longrightarrow> (\<exists>r. clarity (ss ! i) = Num r \<and> 1 \<le> r \<and> r \<le> 10
                   \<and> clamp_clarity rt (Some (JNum (Num r))) = Num r)"
      using cl clamp_clarity_range [of rt cv] clamp_clarity_idem by auto
    have 3: "cv = None \<or> (\<exists>n::int. cv = Some (JNum (Num (of_int n))))
          \<longrightarrow> (\<exists>j::int. clarity (ss ! i) = Num (of_int j))"
      using cl clamp_clarity_int [of cv rt] by simp
    from g cl 1 2 3 show ?thesis by blast
  qed
  from path s xs len each show ?thesis by blast
qed

theorem POST_clarity_range_witness:
  \<open>body (POST table_runtime (Some ''sk-default'')
       (reply_with ''{"suggestions":[{"clarity":7.5}]}'')
       (Inr (JObj [(''prompt'', JStr ''Test prompt'')])))
     = Suggestions [\<lparr> id_of = JStr ''1'', refined = JStr ''Test prompt'',
                       clarity = Num (15 / 2),
                       explanation = JStr ''General improvement suggestion.'' \<rparr>]
   \<and> (\<exists>r. Num (15 / 2) = Num r \<and> 1 \<le> r \<and> r \<le> 10
          \<and> clamp_clarity table_runtime (Some (JNum (Num r))) = Num r)\<close>
proof -
  let ?s = "\<lparr> id_of = JStr ''1'', refined = JStr ''Test prompt'', clarity = Num (15 / 2),
              explanation = JStr ''General improvement suggestion.'' \<rparr>"
  let ?P = \<open>POST table_runtime (Some ''sk-default'')
       (reply_with ''{"suggestions":[{"clarity":7.5}]}'')
       (Inr (JObj [(''prompt'', JStr ''Test prompt'')]))\<close>
  have b: "body ?P = Suggestions [?s]"
    by (simp add: run_test string_of_nat.simps)
  from POST_clarity_range [OF b]
  have "\<forall>i < length [?s]. clarity ([?s] ! i) \<noteq> NaN
          \<longrightarrow> (\<exists>r. clarity ([?s] ! i) = Num r \<and> 1 \<le> r \<and> r \<le> 10
                \<and> clamp_clarity table_runtime (Some (JNum (Num r))) = Num r)"
    by blast
  then have "\<exists>r. clarity ?s = Num r \<and> 1 \<le> r \<and> r \<le> 10
          \<and> clamp_clarity table_runtime (Some (JNum (Num r))) = Num r"
    by simp
  with b show ?thesis by simp
qed



text \<open>
  C5 as stated fails: the empty content is not parseable JSON, and the endpoint answers
  with status 500, not with the fallback suggestion.
\<close>

theorem POST_empty_content_counterexample:
  "JSON_parse table_runtime [] = None
   \<and> status (POST table_runtime (Some ''sk-default'') (reply_with [])
         (Inr (JObj [(''prompt'', JStr ''Test prompt'')]))) = 500
   \<and> body (POST table_runtime (Some ''sk-default'') (reply_with [])
         (Inr (JObj [(''prompt'', JStr ''Test prompt'')])))
       = ErrorMessage ''Failed to refine prompt''"
  by (simp add: run_test)

text \<open>
  C5, as the handler behaves: with a valid prompt and a resolvable credential, when the
  upstream answers with a message content on which \<open>JSON.parse\<close> throws, a non-empty
  content is answered with status 200 and exactly one suggestion (the fixed id, a refined
  text built around the trimmed prompt, the clarity 6 and the fixed explanation), and the
  empty content with status 500 and \<open>Failed to refine prompt\<close>.
\<close>

theorem POST_fallback_on_unparseable:
  assumes "get_prop ''prompt'' b = Inr (Some (JStr p))" and "p \<noteq> []"
    and "get_prop ''apiKey'' b = Inr k"
    and "js_or_opt k (map_option JStr env) = Some key" and "truthy key"
    and "fetch (refine_request rt key p) = Inr resp" and "ok resp"
    and "resp_json resp = Inr data"
    and "extract_content data = Inr (Some (JStr content))"
    and "JSON_parse rt content = None"
  shows \<open>(content \<noteq> []
      \<longrightarrow> status (POST rt env fetch (Inr b)) = 200
        \<and> body (POST rt env fetch (Inr b)) = Suggestions
            [\<lparr> id_of = JStr ''1'',
               refined = JStr (''Be more specific about what you want to know: "'' @ trim p
                                 @ ''" - what particular aspect interests you most?''),
               clarity = Num 6,
               explanation =
                 JStr ''Adding specificity helps get more targeted and useful responses.'' \<rparr>])
    \<and> (content = []
      \<longrightarrow> status (POST rt env fetch (Inr b)) = 500
        \<and> body (POST rt env fetch (Inr b)) = ErrorMessage ''Failed to refine prompt'')\<close>
proof (intro conjI impI)
  assume ne: "content \<noteq> []"
  then have t: "truthy (JStr content)" by simp
  have pf: "parse_or_fallback rt p (JStr content) = fallback p"
    using assms(10) by (simp add: parse_or_fallback_def)
  note P = POST_content [where fetch = fetch and rt = rt, OF assms(1-9) t]
  show "status (POST rt env fetch (Inr b)) = 200"
    using P pf by (simp add: sanitize_fallback respond_def)
  show \<open>body (POST rt env fetch (Inr b)) = Suggestions
            [\<lparr> id_of = JStr ''1'',
               refined = JStr (''Be more specific about what you want to know: "'' @ trim p
                                 @ ''" - what particular aspect interests you most?''),
               clarity = Num 6,
               explanation =
                 JStr ''Adding specificity helps get more targeted and useful responses.'' \<rparr>]\<close>
    using P pf by (simp add: sanitize_fallback respond_def fallback_refined_def)
next
  assume "content = []"
  then have f: "\<not> truthy (JStr content)" by simp
  note P = POST_empty_content [where fetch = fetch and rt = rt, OF assms(1-9) f]
  show "status (POST rt env fetch (Inr b)) = 500"
    using P by (simp add: failed_def)
  show "body (POST rt env fetch (Inr b)) = ErrorMessage ''Failed to refine prompt''"
    using P by (simp add: failed_def)
qed

theorem POST_fallback_on_unparseable_witness:
  \<open>status (POST table_runtime (Some ''sk-default'') (reply_with ''Invalid JSON response'')
      (Inr (JObj [(''prompt'', JStr ''Test prompt'')]))) = 200
   \<and> body (POST table_runtime (Some ''sk-default'') (reply_with ''Invalid JSON response'')
      (Inr (JObj [(''prompt'', JStr ''Test prompt'')])))
     = Suggestions
         [\<lparr> id_of = JStr ''1'',
            refined = JStr ''Be more specific about what you want to know: "Test prompt" - what particular aspect interests you most?'',
            clarity = Num 6,
            explanation = JStr ''Adding specificity helps get more targeted and useful responses.'' \<rparr>]
   \<and> status (POST table_runtime (Some ''sk-default'') (reply_with [])
      (Inr (JObj [(''prompt'', JStr ''Test prompt'')]))) = 500\<close>
proof -
  have tr: "trim ''Test prompt'' = ''Test prompt''"
    by (simp add: trim_def is_space_def)
  have u1: "JSON_parse table_runtime ''Invalid JSON response'' = None"
    and u2: "JSON_parse table_runtime [] = None"
    by (simp_all add: table_runtime_def parse_table_def)
  from POST_fallback_on_unparseable
      [where fetch = "reply_with ''Invalid JSON response''" and rt = table_runtime,
       OF test_request test_reply u1]
    POST_fallback_on_unparseable
      [where fetch = "reply_with []" and rt = table_runtime, OF test_request test_reply u2]
  show ?thesis by (simp add: tr)
qed




text \<open>
  C7 as stated fails: a request whose body is \<open>null\<close>, or is not JSON at all, has no
  prompt, and is answered with status 500 and \<open>Failed to refine prompt\<close>.
\<close>

theorem POST_null_body_counterexample:
  "POST table_runtime (Some ''sk-default'') (reply_with ''{}'') (Inr JNull)
     = \<lparr> status = 500, body = ErrorMessage ''Failed to refine prompt'',
         calls = [], logged = [TypeError] \<rparr>
   \<and> POST table_runtime (Some ''sk-default'') (reply_with ''{}'') (Inl SyntaxError)
     = \<lparr> status = 500, body = ErrorMessage ''Failed to refine prompt'',
         calls = [], logged = [SyntaxError] \<rparr>"
  by (simp add: POST_def destructure_def failed_def bind_err_def)

text \<open>
  C7, as the handler behaves: a request whose body is a JSON value other than \<open>null\<close>
  and whose \<open>prompt\<close> is absent, \<open>null\<close> or not a string is answered with status 400
  and the message \<open>Invalid prompt provided\<close>; a request whose body is \<open>null\<close> or cannot be
  read is answered with status 500 and \<open>Failed to refine prompt\<close>. In neither case is
  \<open>fetch\<close> called.
\<close>

theorem POST_invalid_prompt:
  shows "(get_prop ''prompt'' b = Inr prompt
            \<and> (prompt = None \<or> prompt = Some JNull \<or> typeof prompt \<noteq> ''string'')
          \<longrightarrow> POST rt env fetch (Inr b)
                = \<lparr> status = 400, body = ErrorMessage ''Invalid prompt provided'',
                    calls = [], logged = [] \<rparr>)
       \<and> POST rt env fetch (Inr JNull)
           = \<lparr> status = 500, body = ErrorMessage ''Failed to refine prompt'',
               calls = [], logged = [TypeError] \<rparr>
       \<and> POST rt env fetch (Inl e)
           = \<lparr> status = 500, body = ErrorMessage ''Failed to refine prompt'',
               calls = [], logged = [e] \<rparr>"
proof (intro conjI impI)
  assume a: "get_prop ''prompt'' b = Inr prompt
      \<and> (prompt = None \<or> prompt = Some JNull \<or> typeof prompt \<noteq> ''string'')"
  then have "b \<noteq> JNull" using get_prop_Inr_not_null by blast
  then obtain k where k: "get_prop ''apiKey'' b = Inr k"
    using get_prop_total by blast
  have d: "destructure (Inr b) = Inr (prompt, k)"
    using a k by (simp add: destructure_fields)
  from a have "\<not> truthy_opt prompt \<or> typeof prompt \<noteq> ''string''"
    by auto
  then show "POST rt env fetch (Inr b)
      = \<lparr> status = 400, body = ErrorMessage ''Invalid prompt provided'',
          calls = [], logged = [] \<rparr>"
    by (simp add: POST_def d respond_def)
next
  show "POST rt env fetch (Inr JNull)
      = \<lparr> status = 500, body = ErrorMessage ''Failed to refine prompt'',
          calls = [], logged = [TypeError] \<rparr>"
    by (simp add: POST_def destructure_def failed_def)
next
  show "POST rt env fetch (Inl e)
      = \<lparr> status = 500, body = ErrorMessage ''Failed to refine prompt'',
          calls = [], logged = [e] \<rparr>"
    by (simp add: POST_def destructure_def failed_def)
qed

theorem POST_invalid_prompt_witness:
  "POST table_runtime (Some ''sk-default'') (reply_with ''{}'') (Inr (JObj []))
     = \<lparr> status = 400, body = ErrorMessage ''Invalid prompt provided'', calls = [], logged = [] \<rparr>
   \<and> POST table_runtime (Some ''sk-default'') (reply_with ''{}'') (Inr (JObj [(''prompt'', JNull)]))
     = \<lparr> status = 400, body = ErrorMessage ''Invalid prompt provided'', calls = [], logged = [] \<rparr>
   \<and> POST table_runtime (Some ''sk-default'') (reply_with ''{}'')
        (Inr (JObj [(''prompt'', JNum (Num 42))]))
     = \<lparr> status = 400, body = ErrorMessage ''Invalid prompt provided'', calls = [], logged = [] \<rparr>
   \<and> POST table_runtime (Some ''sk-default'') (reply_with ''{}'') (Inr JNull)
     = \<lparr> status = 500, body = ErrorMessage ''Failed to refine prompt'',
         calls = [], logged = [TypeError] \<rparr>"
  using POST_invalid_prompt [of "JObj []" None table_runtime "Some ''sk-default''" "reply_with ''{}''"]
    POST_invalid_prompt [of "JObj [(''prompt'', JNull)]" "Some JNull" table_runtime
       "Some ''sk-default''" "reply_with ''{}''"]
    POST_invalid_prompt [of "JObj [(''prompt'', JNum (Num 42))]" "Some (JNum (Num 42))"
       table_runtime "Some ''sk-default''" "reply_with ''{}''"]
  by simp



text \<open>
  C9: submitting a blank key, or one that does not start with \<open>sk-\<close>, leaves the
  application state and the session storage as they were (the manager stays
  \<open>Unconfigured\<close>), does not call \<open>onApiKeySet\<close>, and sets the message for that problem.
  Submitting a key that starts with \<open>sk-\<close> calls \<open>onApiKeySet\<close> with the trimmed key:
  the manager becomes \<open>Ready\<close> and the trimmed key is stored under \<open>openai-api-key\<close>, with
  either \<open>handleApiKeySet\<close>.
\<close>

theorem submit_credential:
  assumes "manager_of (apiKey st) = Unconfigured"
  shows \<open>(trim (apiKey_input f) = [] \<or> \<not> startsWith (apiKey_input f) ''sk-''
       \<longrightarrow> snd (handleSubmit f) = None
         \<and> snd (submit f st) = st
         \<and> manager_of (apiKey (snd (submit f st))) = Unconfigured
         \<and> form_error (fst (submit f st))
             = (if trim (apiKey_input f) = [] then ''Please enter your OpenAI API key''
                else ''OpenAI API keys start with "sk-"''))
     \<and> (apiKey_input f \<noteq> [] \<and> startsWith (apiKey_input f) ''sk-''
       \<longrightarrow> snd (handleSubmit f) = Some (trim (apiKey_input f))
         \<and> manager_of (apiKey (snd (submit f st))) = Ready
         \<and> sessionStorage (snd (submit f st)) ''openai-api-key''
             = Some (trim (apiKey_input f))
         \<and> (\<forall>mdl stm.
               manager_of (apiKey_m (handleApiKeySet_model (trim (apiKey_input f)) mdl stm))
                 = Ready
               \<and> sessionStorage_m (handleApiKeySet_model (trim (apiKey_input f)) mdl stm)
                   ''openai-api-key'' = Some (trim (apiKey_input f))))\<close>
proof (intro conjI impI)
  assume bad: "trim (apiKey_input f) = [] \<or> \<not> startsWith (apiKey_input f) ''sk-''"
  then show "snd (handleSubmit f) = None"
    by (auto simp add: handleSubmit_def)
  from bad show "snd (submit f st) = st"
    by (auto simp add: submit_def handleSubmit_def)
  then show "manager_of (apiKey (snd (submit f st))) = Unconfigured"
    using assms by simp
  from bad show \<open>form_error (fst (submit f st))
      = (if trim (apiKey_input f) = [] then ''Please enter your OpenAI API key''
         else ''OpenAI API keys start with "sk-"'')\<close>
    by (auto simp add: submit_def handleSubmit_def)
next
  assume good: "apiKey_input f \<noteq> [] \<and> startsWith (apiKey_input f) ''sk-''"
  then have t: "trim (apiKey_input f) \<noteq> []"
    by (simp add: startsWith_sk_trim)
  from good t show "snd (handleSubmit f) = Some (trim (apiKey_input f))"
    by (simp add: handleSubmit_def)
  from good t show "manager_of (apiKey (snd (submit f st))) = Ready"
    by (simp add: submit_def handleSubmit_def handleApiKeySet_def manager_of_def)
  from good t show "sessionStorage (snd (submit f st)) ''openai-api-key''
             = Some (trim (apiKey_input f))"
    by (simp add: submit_def handleSubmit_def handleApiKeySet_def)
  from t show "\<forall>mdl stm.
               manager_of (apiKey_m (handleApiKeySet_model (trim (apiKey_input f)) mdl stm))
                 = Ready
               \<and> sessionStorage_m (handleApiKeySet_model (trim (apiKey_input f)) mdl stm)
                   ''openai-api-key'' = Some (trim (apiKey_input f))"
    by (simp add: handleApiKeySet_model_def manager_of_def)
qed

theorem submit_credential_witness:
  \<open>submit (typed ''   '') empty_session
       = (\<lparr>apiKey_input = ''   '', showKey = False,
           form_error = ''Please enter your OpenAI API key''\<rparr>, empty_session)
   \<and> submit (typed ''pk-123'') empty_session
       = (\<lparr>apiKey_input = ''pk-123'', showKey = False,
           form_error = ''OpenAI API keys start with "sk-"''\<rparr>, empty_session)
   \<and> manager_of (apiKey (snd (submit (typed ''sk-123 '') empty_session))) = Ready
   \<and> sessionStorage (snd (submit (typed ''sk-123 '') empty_session)) ''openai-api-key''
       = Some ''sk-123''\<close>
proof -
  have u: "manager_of (apiKey empty_session) = Unconfigured"
    by (simp add: empty_session_def manager_of_def)
  have t1: "trim (apiKey_input (typed ''   '')) = []"
    by (simp add: typed_def trim_def is_space_def)
  have t2: "\<not> startsWith (apiKey_input (typed ''pk-123'')) ''sk-''"
    by (simp add: typed_def startsWith_def)
  have t2': "trim (apiKey_input (typed ''pk-123'')) \<noteq> []"
    by (simp add: typed_def trim_def is_space_def)
  have t3: "apiKey_input (typed ''sk-123 '') \<noteq> [] \<and> startsWith (apiKey_input (typed ''sk-123 '')) ''sk-''"
    by (simp add: typed_def startsWith_def)
  have t3': "trim (apiKey_input (typed ''sk-123 '')) = ''sk-123''"
    by (simp add: typed_def trim_def is_space_def)
  have f1: "fst (submit (typed ''   '') empty_session)
      = (typed ''   '')\<lparr>form_error := form_error (fst (submit (typed ''   '') empty_session))\<rparr>"
    by (simp add: submit_def handleSubmit_def typed_def trim_def is_space_def)
  have f2: "fst (submit (typed ''pk-123'') empty_session)
      = (typed ''pk-123'')\<lparr>form_error := form_error (fst (submit (typed ''pk-123'') empty_session))\<rparr>"
    by (simp add: submit_def handleSubmit_def typed_def trim_def is_space_def startsWith_def)
  from submit_credential [OF u, of "typed ''   ''"] t1
  have a: "snd (submit (typed ''   '') empty_session) = empty_session"
    and a': "form_error (fst (submit (typed ''   '') empty_session))
               = ''Please enter your OpenAI API key''"
    by simp_all
  from submit_credential [OF u, of "typed ''pk-123''"] t2 t2'
  have b: "snd (submit (typed ''pk-123'') empty_session) = empty_session"
    and b': \<open>form_error (fst (submit (typed ''pk-123'') empty_session))
               = ''OpenAI API keys start with "sk-"''\<close>
    by simp_all
  from submit_credential [OF u, of "typed ''sk-123 ''"] t3 t3'
  have c: "manager_of (apiKey (snd (submit (typed ''sk-123 '') empty_session))) = Ready"
    and c': "sessionStorage (snd (submit (typed ''sk-123 '') empty_session)) ''openai-api-key''
               = Some ''sk-123''"
    by simp_all
  have "submit (typed ''   '') empty_session
       = (\<lparr>apiKey_input = ''   '', showKey = False,
           form_error = ''Please enter your OpenAI API key''\<rparr>, empty_session)"
    using a a' f1 by (simp add: prod_eq_iff typed_def)
  moreover have \<open>submit (typed ''pk-123'') empty_session
       = (\<lparr>apiKey_input = ''pk-123'', showKey = False,
           form_error = ''OpenAI API keys start with "sk-"''\<rparr>, empty_session)\<close>
    using b b' f2 by (simp add: prod_eq_iff typed_def)
  ultimately show ?thesis using c c' by simp
qed

text \<open>
  C10 as stated fails: the contents \<open>null\<close> and \<open>{"suggestions":"none"}\<close> parse, hold no suggestions array, and
  are answered with status 500.
\<close>

theorem POST_wrong_shape_counterexample:
  \<open>JSON_parse table_runtime ''null'' = Some JNull
   \<and> status (POST table_runtime (Some ''sk-default'') (reply_with ''null'')
         (Inr (JObj [(''prompt'', JStr ''Test prompt'')]))) = 500
   \<and> body (POST table_runtime (Some ''sk-default'') (reply_with ''null'')
         (Inr (JObj [(''prompt'', JStr ''Test prompt'')])))
       = ErrorMessage ''Failed to refine prompt''
   \<and> JSON_parse table_runtime ''{"suggestions":"none"}''
       = Some (JObj [(''suggestions'', JStr ''none'')])
   \<and> status (POST table_runtime (Some ''sk-default'') (reply_with ''{"suggestions":"none"}'')
         (Inr (JObj [(''prompt'', JStr ''Test prompt'')]))) = 500\<close>
  by (simp add: POST_def destructure_def js_or_opt_def after_fetch_def reply_with_def
      extract_content_def parse_or_fallback_def sanitize_def table_runtime_def parse_table_def
      failed_def)

text \<open>
  C10, as the handler behaves: when the upstream content parses, the fallback is not
  used. If the parsed value is not \<open>null\<close> and its \<open>suggestions\<close> is absent or falsy, the
  answer is status 200 with no suggestions. If the parsed value is \<open>null\<close>, or its
  \<open>suggestions\<close> is truthy and not an array, the handler throws and answers with status
  500 and \<open>Failed to refine prompt\<close>.
\<close>

theorem POST_no_suggestions_member:
  assumes "get_prop ''prompt'' b = Inr (Some (JStr p))" and "p \<noteq> []"
    and "get_prop ''apiKey'' b = Inr k"
    and "js_or_opt k (map_option JStr env) = Some key" and "truthy key"
    and "fetch (refine_request rt key p) = Inr resp" and "ok resp"
    and "resp_json resp = Inr data"
    and "extract_content data = Inr (Some (JStr content))" and "content \<noteq> []"
    and "JSON_parse rt content = Some parsed"
  shows "((\<exists>s. get_prop ''suggestions'' parsed = Inr s \<and> \<not> truthy_opt s)
            \<longrightarrow> status (POST rt env fetch (Inr b)) = 200
                \<and> body (POST rt env fetch (Inr b)) = Suggestions [])
       \<and> (parsed = JNull
            \<or> (\<exists>v. get_prop ''suggestions'' parsed = Inr (Some v) \<and> truthy v
                     \<and> (\<forall>xs. v \<noteq> JArr xs))
            \<longrightarrow> status (POST rt env fetch (Inr b)) = 500
                \<and> body (POST rt env fetch (Inr b)) = ErrorMessage ''Failed to refine prompt'')"
proof -
  have t: "truthy (JStr content)" using assms(10) by simp
  have "parse_or_fallback rt p (JStr content) = parsed"
    using assms(11) by (simp add: parse_or_fallback_def)
  then have af: "after_fetch rt p (fetch (refine_request rt key p)) = sanitize rt p parsed"
    using after_fetch_content [OF assms(6) assms(7) assms(8) assms(9) t, of rt p] by simp
  note P = POST_accepted [OF assms(1-5), of rt fetch]
  show ?thesis
  proof (intro conjI impI)
    assume "\<exists>s. get_prop ''suggestions'' parsed = Inr s \<and> \<not> truthy_opt s"
    then have e: "sanitize rt p parsed = Inr []"
      using sanitize_no_suggestions by blast
    show "status (POST rt env fetch (Inr b)) = 200"
      using P af e by (simp add: respond_def)
    show "body (POST rt env fetch (Inr b)) = Suggestions []"
      using P af e by (simp add: respond_def)
  next
    assume "parsed = JNull
      \<or> (\<exists>v. get_prop ''suggestions'' parsed = Inr (Some v) \<and> truthy v \<and> (\<forall>xs. v \<noteq> JArr xs))"
    then have e: "sanitize rt p parsed = Inl TypeError"
      by (rule sanitize_throws)
    show "status (POST rt env fetch (Inr b)) = 500"
      using P af e by (simp add: failed_def)
    show "body (POST rt env fetch (Inr b)) = ErrorMessage ''Failed to refine prompt''"
      using P af e by (simp add: failed_def)
  qed
qed

theorem POST_no_suggestions_member_witness:
  \<open>status (POST table_runtime (Some ''sk-default'') (reply_with ''{}'')
       (Inr (JObj [(''prompt'', JStr ''Test prompt'')]))) = 200
   \<and> body (POST table_runtime (Some ''sk-default'') (reply_with ''{}'')
       (Inr (JObj [(''prompt'', JStr ''Test prompt'')]))) = Suggestions []
   \<and> status (POST table_runtime (Some ''sk-default'') (reply_with ''null'')
       (Inr (JObj [(''prompt'', JStr ''Test prompt'')]))) = 500\<close>
proof -
  let ?b = "JObj [(''prompt'', JStr ''Test prompt'')]"
  let ?data = "\<lambda>c. JObj [(''choices'',
                 JArr [JObj [(''message'', JObj [(''content'', JStr c)])]])]"
  have h1: "get_prop ''prompt'' ?b = Inr (Some (JStr ''Test prompt''))" by simp
  have h2: "''Test prompt'' \<noteq> []" by simp
  have h3: "get_prop ''apiKey'' ?b = Inr None" by simp
  have h4: "js_or_opt None (map_option JStr (Some ''sk-default'')) = Some (JStr ''sk-default'')"
    by (simp add: js_or_opt_def)
  have h5: "truthy (JStr ''sk-default'')" by simp
  have h6: "reply_with c (refine_request table_runtime (JStr ''sk-default'') ''Test prompt'')
              = Inr \<lparr>ok = True, resp_status = 200, resp_json = Inr (?data c)\<rparr>" for c
    by (simp add: reply_with_def)
  have h7: "ok \<lparr>ok = True, resp_status = 200, resp_json = Inr (?data c)\<rparr>" for c by simp
  have h8: "resp_json \<lparr>ok = True, resp_status = 200, resp_json = Inr (?data c)\<rparr>
              = Inr (?data c)" for c
    by simp
  have h9: "extract_content (?data c) = Inr (Some (JStr c))" for c
    by (simp add: extract_content_def)
  have a10: "''{}'' \<noteq> []" by simp
  have a11: "JSON_parse table_runtime ''{}'' = Some (JObj [])"
    by (simp add: table_runtime_def parse_table_def)
  have b10: "''null'' \<noteq> []" by simp
  have b11: "JSON_parse table_runtime ''null'' = Some JNull"
    by (simp add: table_runtime_def parse_table_def)
  have a: "\<exists>s. get_prop ''suggestions'' (JObj []) = Inr s \<and> \<not> truthy_opt s" by simp
  from POST_no_suggestions_member [where fetch = "reply_with ''{}''" and rt = table_runtime,
      OF h1 h2 h3 h4 h5 h6 h7 h8 h9 a10 a11]
    POST_no_suggestions_member [where fetch = "reply_with ''null''" and rt = table_runtime,
      OF h1 h2 h3 h4 h5 h6 h7 h8 h9 b10 b11]
    a
  show ?thesis by blast
qed

end
